theory Spec2Isabelle
  imports Main "HOL-Library.Sublist" "HOL-Library.Char_ord" "HOL-Library.List_Lexorder"
    "HOL-Library.Multiset"
begin

section \<open>Strings and paths\<close>

text \<open>
  Python strings are modelled as \<^typ>\<open>string\<close>; a \<^typ>\<open>char\<close> stands for a code point
  below 256. \<open>s.startswith(p)\<close> is \<^term>\<open>prefix p s\<close>, \<open>s.endswith(p)\<close> is
  \<^term>\<open>suffix p s\<close>, \<open>s[n:]\<close> is \<^term>\<open>drop n s\<close> and \<open>s[:-n]\<close> is
  \<^term>\<open>take (length s - n) s\<close>.
\<close>

definition nl :: string where
  "nl = [CHR 0x0A]"

definition apostrophe :: string where
  "apostrophe = [CHR 0x27]"

text \<open>\<open>k in s\<close> for two strings: \<open>k\<close> occurs in \<open>s\<close> as a contiguous substring.\<close>

fun str_contains :: "string \<Rightarrow> string \<Rightarrow> bool" where
  "str_contains k [] = (k = [])"
| "str_contains k (c # cs) = (prefix k (c # cs) \<or> str_contains k cs)"

text \<open>The characters below 256 for which \<open>str.isspace()\<close> holds; \<open>str.strip()\<close> removes them
  from both ends.\<close>

definition py_isspace :: "char \<Rightarrow> bool" where
  "py_isspace c = ((of_char c :: nat) \<in> {9, 10, 11, 12, 13, 28, 29, 30, 31, 32, 133, 160})"

definition strip :: "string \<Rightarrow> string" where
  "strip s = rev (dropWhile py_isspace (rev (dropWhile py_isspace s)))"

text \<open>\<open>sep.join(xs)\<close>.\<close>

fun join :: "string \<Rightarrow> string list \<Rightarrow> string" where
  "join sep [] = []"
| "join sep [x] = x"
| "join sep (x # y # ys) = x @ sep @ join sep (y # ys)"

text \<open>
  A path is the list of its components. Every path of the model is relative to the project
  root \<open>self.source_dir\<close>: the unit \<open>src/utils/foo.py\<close> is \<open>[''src'', ''utils'', ''foo.py'']\<close>,
  \<open>rel_path.parent\<close> is \<^term>\<open>butlast p\<close>, \<open>file_path.name\<close> is \<^term>\<open>last p\<close> and
  \<open>str(rel_path)\<close> joins the components with a slash.
\<close>

type_synonym path = "string list"

definition path_str :: "path \<Rightarrow> string" where
  "path_str p = join ''/'' p"

text \<open>\<open>s.rfind(c)\<close> for a single character, with \<open>None\<close> for Python's \<open>-1\<close>.\<close>

definition rfind :: "char \<Rightarrow> string \<Rightarrow> nat option" where
  "rfind c s =
     (if c \<in> set s then Some (length s - 1 - length (takeWhile (\<lambda>x. x \<noteq> c) (rev s)))
      else None)"

text \<open>\<open>PurePath.stem\<close>: the name without its last suffix; a name whose only dot is the
  first or the last character has no suffix.\<close>

definition stem :: "string \<Rightarrow> string" where
  "stem name =
     (case rfind CHR ''.'' name of
        None \<Rightarrow> name
      | Some i \<Rightarrow> if 0 < i \<and> i < length name - 1 then take i name else name)"

definition docs_dir :: path where
  "docs_dir = [''docs'']"

text \<open>\<open>self.docs_dir / rel_path.parent / (file_path.stem + ext)\<close>.\<close>

definition artifact_path :: "path \<Rightarrow> string \<Rightarrow> path" where
  "artifact_path p ext = docs_dir @ butlast p @ [stem (last p) @ ext]"

section \<open>The client of the text-generation service\<close>

text \<open>
  What the HTTP request of \<open>LLMClient._call_llm\<close> produces: the \<open>content\<close> field of the
  first choice, or an exception (timeout, transport error, a body without the expected
  fields) with its message.
\<close>

datatype llm_response = Content string | Failure string

text \<open>
  \<open>LLMClient._call_llm\<close>, lines 118-145. The \<open>except Exception\<close> clause turns every
  failure into the returned string \<open>f"Error: {e}"\<close>.
\<close>

definition call_llm :: "llm_response \<Rightarrow> string" where
  "call_llm r =
     (case r of
        Failure e \<Rightarrow> ''Error: '' @ e
      | Content content \<Rightarrow>
          let content1 =
                (if prefix ''```markdown'' content then drop 11 content
                 else if prefix ''```'' content then
                   (if \<not> str_contains ''yaml'' (take 10 content) then drop 3 content
                    else content)
                 else content);
              content2 =
                (if suffix ''```'' content1 then take (length content1 - 3) content1
                 else content1)
          in strip content2)"

text \<open>\<open>LLMClient.generate_docs\<close>: the prompt is built and \<open>_call_llm\<close> is returned as is.\<close>

definition generate_docs :: "llm_response \<Rightarrow> string" where
  "generate_docs r = call_llm r"

text \<open>The fence clean-up of \<open>LLMClient.generate_openapi_fragment\<close>, lines 106-111.\<close>

definition strip_fragment_fences :: "string \<Rightarrow> string" where
  "strip_fragment_fences result =
     (let result1 = (if prefix ''```yaml'' result then drop 7 result else result);
          result2 = (if prefix ''```'' result1 then drop 3 result1 else result1);
          result3 = (if suffix ''```'' result2 then take (length result2 - 3) result2
                     else result2)
      in result3)"

section \<open>Python values\<close>

text \<open>
  The values \<open>yaml.safe_load\<close> and \<open>json.loads\<close> return: \<open>None\<close>, booleans, integers,
  floats (kept as their \<open>repr\<close>, which is \<open>0.0\<close> or \<open>-0.0\<close> exactly for the two zeros),
  strings, byte strings (\<open>!!binary\<close>), dates and timestamps (kept as their ISO text), lists,
  sets (\<open>!!set\<close>, by their elements) and dictionaries (an association list in insertion
  order, keys distinct). A YAML document whose aliases make a value contain itself has no
  counterpart here.
\<close>

datatype pyval =
    PNone
  | PBool bool
  | PInt int
  | PFloat string
  | PStr string
  | PBytes string
  | PDate string
  | PList "pyval list"
  | PSet "pyval list"
  | PDict "(pyval \<times> pyval) list"

datatype exn =
    AttributeError string
  | TypeError string
  | KeyError string
  | OSError path

text \<open>Truth value testing, as in \<open>if fragment\<close>.\<close>

fun py_truthy :: "pyval \<Rightarrow> bool" where
  "py_truthy PNone = False"
| "py_truthy (PBool b) = b"
| "py_truthy (PInt i) = (i \<noteq> 0)"
| "py_truthy (PFloat r) = (r \<noteq> ''0.0'' \<and> r \<noteq> ''-0.0'')"
| "py_truthy (PStr s) = (s \<noteq> [])"
| "py_truthy (PBytes b) = (b \<noteq> [])"
| "py_truthy (PDate d) = True"
| "py_truthy (PList xs) = (xs \<noteq> [])"
| "py_truthy (PSet xs) = (xs \<noteq> [])"
| "py_truthy (PDict kvs) = (kvs \<noteq> [])"

text \<open>
  \<open>"paths" in fragment\<close> with a string on the left: key membership for a dictionary, the
  substring test for a string, element membership for a list or a set, and a
  \<open>TypeError\<close> for a byte string and for a value that is not a container.
\<close>

fun py_in :: "string \<Rightarrow> pyval \<Rightarrow> exn + bool" where
  "py_in k (PDict kvs) = Inr (PStr k \<in> fst ` set kvs)"
| "py_in k (PStr s) = Inr (str_contains k s)"
| "py_in k (PList xs) = Inr (PStr k \<in> set xs)"
| "py_in k PNone = Inl (TypeError ''argument of type NoneType is not iterable'')"
| "py_in k (PBool b) = Inl (TypeError ''argument of type bool is not iterable'')"
| "py_in k (PInt i) = Inl (TypeError ''argument of type int is not iterable'')"
| "py_in k (PSet xs) = Inr (PStr k \<in> set xs)"
| "py_in k (PFloat r) = Inl (TypeError ''argument of type float is not iterable'')"
| "py_in k (PBytes b) = Inl (TypeError ''a bytes-like object is required, not str'')"
| "py_in k (PDate d) = Inl (TypeError ''argument of type datetime.date is not iterable'')"

text \<open>\<open>fragment.get(k, default)\<close>: only a dictionary has the method.\<close>

fun py_get :: "pyval \<Rightarrow> string \<Rightarrow> pyval \<Rightarrow> exn + pyval" where
  "py_get (PDict kvs) k dflt =
     Inr (case map_of kvs (PStr k) of None \<Rightarrow> dflt | Some v \<Rightarrow> v)"
| "py_get (PStr s) k dflt = Inl (AttributeError ''str object has no attribute get'')"
| "py_get (PList xs) k dflt = Inl (AttributeError ''list object has no attribute get'')"
| "py_get PNone k dflt = Inl (AttributeError ''NoneType object has no attribute get'')"
| "py_get (PBool b) k dflt = Inl (AttributeError ''bool object has no attribute get'')"
| "py_get (PInt i) k dflt = Inl (AttributeError ''int object has no attribute get'')"
| "py_get (PSet xs) k dflt = Inl (AttributeError ''set object has no attribute get'')"
| "py_get (PFloat r) k dflt = Inl (AttributeError ''float object has no attribute get'')"
| "py_get (PBytes b) k dflt = Inl (AttributeError ''bytes object has no attribute get'')"
| "py_get (PDate d) k dflt =
     Inl (AttributeError ''datetime.date object has no attribute get'')"

text \<open>\<open>d[k]\<close> with a string key.\<close>

fun py_getitem :: "pyval \<Rightarrow> string \<Rightarrow> exn + pyval" where
  "py_getitem (PDict kvs) k =
     (case map_of kvs (PStr k) of None \<Rightarrow> Inl (KeyError k) | Some v \<Rightarrow> Inr v)"
| "py_getitem (PStr s) k = Inl (TypeError ''string indices must be integers'')"
| "py_getitem (PList xs) k = Inl (TypeError ''list indices must be integers or slices'')"
| "py_getitem PNone k = Inl (TypeError ''NoneType object is not subscriptable'')"
| "py_getitem (PBool b) k = Inl (TypeError ''bool object is not subscriptable'')"
| "py_getitem (PInt i) k = Inl (TypeError ''int object is not subscriptable'')"
| "py_getitem (PSet xs) k = Inl (TypeError ''set object is not subscriptable'')"
| "py_getitem (PFloat r) k = Inl (TypeError ''float object is not subscriptable'')"
| "py_getitem (PBytes b) k = Inl (TypeError ''byte indices must be integers or slices'')"
| "py_getitem (PDate d) k = Inl (TypeError ''datetime.date object is not subscriptable'')"

text \<open>
  What \<open>json.dumps\<close> accepts: \<open>None\<close>, booleans, numbers, strings, lists and dictionaries
  of such values whose keys are strings, numbers, booleans or \<open>None\<close>. On a byte string, a
  date, a set or any other key it raises a \<open>TypeError\<close>.
\<close>

fun json_key :: "pyval \<Rightarrow> bool" where
  "json_key PNone = True"
| "json_key (PBool b) = True"
| "json_key (PInt i) = True"
| "json_key (PFloat r) = True"
| "json_key (PStr s) = True"
| "json_key (PBytes b) = False"
| "json_key (PDate d) = False"
| "json_key (PList xs) = False"
| "json_key (PSet xs) = False"
| "json_key (PDict kvs) = False"

fun json_serializable :: "pyval \<Rightarrow> bool" where
  "json_serializable PNone = True"
| "json_serializable (PBool b) = True"
| "json_serializable (PInt i) = True"
| "json_serializable (PFloat r) = True"
| "json_serializable (PStr s) = True"
| "json_serializable (PBytes b) = False"
| "json_serializable (PDate d) = False"
| "json_serializable (PList xs) = (\<forall>x \<in> set xs. json_serializable x)"
| "json_serializable (PSet xs) = False"
| "json_serializable (PDict kvs) =
     (\<forall>kv \<in> set kvs. json_key (fst kv) \<and> json_serializable (snd kv))"

section \<open>Assembling the aggregate specification\<close>

text \<open>
  The dictionary literal of \<open>AutoDoc._process_file\<close>, lines 241-250. Its four \<open>fragment.get\<close>
  calls are evaluated in the order title, description, paths, components.
\<close>

definition assemble :: "string \<Rightarrow> string \<Rightarrow> pyval \<Rightarrow> exn + pyval" where
  "assemble project file_name fragment =
     (case py_get fragment ''title''
             (PStr (project @ '' API'' @ apostrophe @ ''s Documentation'')) of
        Inl e \<Rightarrow> Inl e
      | Inr title \<Rightarrow>
     (case py_get fragment ''description''
             (PStr (''Auto-generated spec for '' @ file_name)) of
        Inl e \<Rightarrow> Inl e
      | Inr description \<Rightarrow>
     (case py_get fragment ''paths'' (PDict []) of
        Inl e \<Rightarrow> Inl e
      | Inr paths \<Rightarrow>
     (case py_get fragment ''components'' (PDict [(PStr ''schemas'', PDict [])]) of
        Inl e \<Rightarrow> Inl e
      | Inr components \<Rightarrow>
          Inr (PDict
            [(PStr ''openapi'', PStr ''3.0.0''),
             (PStr ''info'', PDict
                [(PStr ''title'', title),
                 (PStr ''version'', PStr ''1.0.0''),
                 (PStr ''description'', description)]),
             (PStr ''paths'', paths),
             (PStr ''components'', components)])))))"

section \<open>The collaborators and the state of a run\<close>

datatype validation = Valid | Validation_Error string | Other_Exception string

text \<open>
  Everything outside the program: the name of the root directory, the source files (a read
  that raises is \<open>None\<close>), the MD5 digest, the two replies of the text-generation service
  for a unit's code, the YAML parser (a parse that raises is \<open>None\<close>), the OpenAPI validator,
  the YAML serialiser, the JSON serialiser (consulted on the values \<open>json.dumps\<close> accepts)
  and parser (a parse that raises is \<open>None\<close>), \<open>str()\<close> of a value inside an f-string,
  and the file system: whether a directory can be created, whether a file can be written
  and, for a write that fails, whether the file was opened before the failure (\<open>Some n\<close>:
  the file was truncated and holds the first \<open>n\<close> characters of the text) or not
  (\<open>None\<close>: the disk is as before).
\<close>

record env =
  project_name :: string
  read_text :: "path \<Rightarrow> string option"
  md5_hex :: "string \<Rightarrow> string"
  docs_response :: "string \<Rightarrow> llm_response"
  fragment_response :: "string \<Rightarrow> llm_response"
  safe_load :: "string \<Rightarrow> pyval option"
  validate :: "pyval \<Rightarrow> validation"
  yaml_dump :: "pyval \<Rightarrow> string"
  json_dumps :: "pyval \<Rightarrow> string"
  format_value :: "pyval \<Rightarrow> string"
  can_mkdir :: "path \<Rightarrow> bool"
  can_write :: "path \<Rightarrow> bool"
  partial_write :: "path \<Rightarrow> nat option"
  dump_cache :: "(string \<rightharpoonup> string) \<Rightarrow> string"
  json_loads :: "string \<Rightarrow> pyval option"

text \<open>The lines the program prints, one constructor for each \<open>print\<close> statement.\<close>

datatype message =
    Starting
  | Output_Directory
  | No_Files_Found
  | Found_Files nat
  | Processing string
  | Read_Error
  | Skipping_Unchanged
  | Saved_To path
  | Detecting_Api
  | Failed_To_Parse_Fragment
  | Validation_Warning string
  | Validation_Exception string
  | Generated_Spec path
  | Generated_Swagger path
  | Index_Generated
  | Documentation_Complete

text \<open>
  The mutable state: the dictionary \<open>self.cache\<close>, the files on disk (keyed by their path
  relative to the project root) and what has been printed so far.
\<close>

record state =
  cache :: "string \<rightharpoonup> string"
  fs :: "path \<rightharpoonup> string"
  printed :: "message list"

definition say :: "message \<Rightarrow> state \<Rightarrow> state" where
  "say m s = s\<lparr>printed := printed s @ [m]\<rparr>"

definition write_file :: "path \<Rightarrow> string \<Rightarrow> state \<Rightarrow> state" where
  "write_file p txt s = s\<lparr>fs := (fs s)(p \<mapsto> txt)\<rparr>"

text \<open>
  \<open>Path.write_text\<close> and \<open>open(path, 'w')\<close> followed by the write: the file is truncated
  when it is opened, so a write that fails after the open leaves a part of the text, maybe
  none of it, in the file; a write that cannot open the file leaves the disk as it is.
\<close>

definition write_text :: "env \<Rightarrow> path \<Rightarrow> string \<Rightarrow> state \<Rightarrow> exn option \<times> state" where
  "write_text E p txt s =
     (if can_write E p then (None, write_file p txt s)
      else (Some (OSError p),
            case partial_write E p of
              None \<Rightarrow> s
            | Some n \<Rightarrow> write_file p (take n txt) s))"

text \<open>
  \<open>LLMClient.generate_openapi_fragment\<close>, lines 103-116: the reply goes through
  \<open>_call_llm\<close>, the fences are removed and the YAML parser runs; a parse that raises prints
  a warning and yields \<open>None\<close>.
\<close>

definition generate_openapi_fragment :: "env \<Rightarrow> string \<Rightarrow> pyval \<times> message list" where
  "generate_openapi_fragment E code =
     (let result = call_llm (fragment_response E code) in
      case safe_load E (strip_fragment_fences result) of
        Some v \<Rightarrow> (v, [])
      | None \<Rightarrow> (PNone, [Failed_To_Parse_Fragment]))"

section \<open>The viewer page\<close>

definition swagger_head :: "string list" where
  \<open>swagger_head =
     [''<!DOCTYPE html>'',
      ''<html lang="en">'',
      ''<head>'',
      ''    <meta charset="utf-8" />'',
      ''    <meta name="viewport" content="width=device-width, initial-scale=1" />'']\<close>

definition swagger_middle :: "string list" where
  \<open>swagger_middle =
     [''    <link rel="stylesheet" href="https://unpkg.com/swagger-ui-dist@5.11.0/swagger-ui.css" />'',
      ''    <style>'',
      ''        body { margin: 0; padding: 0; }'',
      ''        #swagger-ui { max-width: 1460px; margin: 0 auto; }'',
      ''        /* Dark mode tweaks if needed, but default is clean */'',
      ''    </style>'',
      ''</head>'',
      ''<body>'',
      ''    <div id="swagger-ui"></div>'',
      ''    <script src="https://unpkg.com/swagger-ui-dist@5.11.0/swagger-ui-bundle.js" crossorigin></script>'',
      ''    <script>'',
      ''        window.onload = () => {'',
      ''            window.ui = SwaggerUIBundle({'']\<close>

definition swagger_tail :: "string list" where
  \<open>swagger_tail =
     [''                dom_id: '' @ apostrophe @ ''#swagger-ui'' @ apostrophe @ '','',
      ''                presets: ['',
      ''                    SwaggerUIBundle.presets.apis,'',
      ''                    SwaggerUIBundle.SwaggerUIStandalonePreset'',
      ''                ],'',
      ''                layout: "BaseLayout",'',
      ''                deepLinking: true,'',
      ''                showExtensions: true,'',
      ''                showCommonExtensions: true'',
      ''            });'',
      ''        };'',
      ''    </script>'',
      ''</body>'',
      ''</html>'']\<close>

text \<open>
  \<open>AutoDoc._create_swagger_html\<close>, lines 287-325: the template starts with an empty line,
  \<open>json.dumps(spec)\<close> runs first and raises on a value JSON cannot represent; then
  \<open>spec['info']['title']\<close> is formatted into the title element and the JSON text into
  the script.
\<close>

definition create_swagger_html :: "env \<Rightarrow> pyval \<Rightarrow> exn + string" where
  "create_swagger_html E spec =
     (if \<not> json_serializable spec
      then Inl (TypeError ''Object is not JSON serializable'')
      else
      let spec_json = json_dumps E spec in
      case py_getitem spec ''info'' of
        Inl e \<Rightarrow> Inl e
      | Inr info \<Rightarrow>
     (case py_getitem info ''title'' of
        Inl e \<Rightarrow> Inl e
      | Inr title \<Rightarrow>
          Inr (concat (map (\<lambda>l. l @ nl)
            ([] # swagger_head
             @ [''    <title>'' @ format_value E title @ ''</title>'']
             @ swagger_middle
             @ [''                spec: '' @ spec_json @ '','']
             @ swagger_tail)))))"

section \<open>Processing one unit\<close>

text \<open>The heuristic of line 235.\<close>

definition api_like :: "string \<Rightarrow> bool" where
  "api_like code =
     list_ex (\<lambda>k. str_contains k code) [''APIView'', ''route'', ''def get('', ''def post('']"

text \<open>
  Lines 239-271 of \<open>AutoDoc._process_file\<close>: what happens to a fragment once the unit is
  API-like. An exception leaves the function with the state as it is at that point.
\<close>

definition write_spec :: "env \<Rightarrow> path \<Rightarrow> pyval \<Rightarrow> state \<Rightarrow> exn option \<times> state" where
  "write_spec E p fragment s =
     (if \<not> py_truthy fragment then (None, s)
      else case py_in ''paths'' fragment of
        Inl e \<Rightarrow> (Some e, s)
      | Inr False \<Rightarrow> (None, s)
      | Inr True \<Rightarrow>
     (case assemble (project_name E) (last p) fragment of
        Inl e \<Rightarrow> (Some e, s)
      | Inr spec \<Rightarrow>
          let s1 = (case validate E spec of
                      Valid \<Rightarrow> s
                    | Validation_Error e \<Rightarrow> say (Validation_Warning e) s
                    | Other_Exception e \<Rightarrow> say (Validation_Exception e) s);
              spec_path = artifact_path p ''.yaml''
          in case write_text E spec_path (yaml_dump E spec) s1 of
               (Some e, s') \<Rightarrow> (Some e, s')
             | (None, s') \<Rightarrow>
               let s2 = say (Generated_Spec spec_path) s'
               in case create_swagger_html E spec of
                    Inl e \<Rightarrow> (Some e, s2)
                  | Inr html_content \<Rightarrow>
                      let html_path = artifact_path p ''.html''
                      in case write_text E html_path html_content s2 of
                           (Some e, s') \<Rightarrow> (Some e, s')
                         | (None, s') \<Rightarrow> (None, say (Generated_Swagger html_path) s')))"

text \<open>
  \<open>AutoDoc._process_file\<close>, lines 201-271. The result is the exception that leaves the
  function, if any, and the state at that point.
\<close>

definition process_file :: "env \<Rightarrow> path \<Rightarrow> state \<Rightarrow> exn option \<times> state" where
  "process_file E p s =
     (let s0 = say (Processing (path_str p)) s in
      case read_text E p of
        None \<Rightarrow> (None, say Read_Error s0)
      | Some code \<Rightarrow>
          let current_hash = md5_hex E code in
          if path_str p \<in> dom (cache s0) \<and> cache s0 (path_str p) = Some current_hash
          then (None, say Skipping_Unchanged s0)
          else
            let doc_content = generate_docs (docs_response E code);
                s1 = s0\<lparr>cache := (cache s0)(path_str p \<mapsto> current_hash)\<rparr>;
                out_path = artifact_path p ''.md''
            in if \<not> can_mkdir E (butlast out_path) then (Some (OSError (butlast out_path)), s1)
               else case write_text E out_path doc_content s1 of
                 (Some e, s') \<Rightarrow> (Some e, s')
               | (None, s') \<Rightarrow>
                 let s2 = say (Saved_To out_path) s'
                 in if api_like code then
                      (let s3 = say Detecting_Api s2;
                           (fragment, warnings) = generate_openapi_fragment E code;
                           s4 = s3\<lparr>printed := printed s3 @ warnings\<rparr>
                       in write_spec E p fragment s4)
                    else (None, s2))"

fun process_files :: "env \<Rightarrow> path list \<Rightarrow> state \<Rightarrow> exn option \<times> state" where
  "process_files E [] s = (None, s)"
| "process_files E (f # files) s =
     (case process_file E f s of
        (Some e, s') \<Rightarrow> (Some e, s')
      | (None, s') \<Rightarrow> process_files E files s')"

section \<open>The index, the cache file and the run\<close>

text \<open>The list \<open>links\<close> of \<open>AutoDoc._generate_index\<close>, lines 342-346.\<close>

definition index_links :: "(path \<rightharpoonup> string) \<Rightarrow> path \<Rightarrow> string list" where
  "index_links files_on_disk f =
     (if artifact_path f ''.yaml'' \<in> dom files_on_disk
      then [''[OpenAPI]('' @ stem (last f) @ ''.yaml)''] else [])
     @ (if artifact_path f ''.html'' \<in> dom files_on_disk
        then [''[Swagger UI]('' @ stem (last f) @ ''.html)''] else [])"

text \<open>The line appended for one file, lines 335-351.\<close>

definition index_entry :: "(path \<rightharpoonup> string) \<Rightarrow> path \<Rightarrow> string" where
  "index_entry files_on_disk f =
     (let doc_rel = butlast f @ [stem (last f) @ ''.md''];
          links = index_links files_on_disk f
      in if links \<noteq> []
         then ''- ['' @ path_str f @ '']('' @ path_str doc_rel @ '') (''
              @ join '' | '' links @ '')''
         else ''- ['' @ path_str f @ '']('' @ path_str doc_rel @ '')'')"

definition index_path :: path where
  "index_path = docs_dir @ [''README.md'']"

definition index_lines :: "(path \<rightharpoonup> string) \<Rightarrow> path list \<Rightarrow> string list" where
  "index_lines files_on_disk files =
     [''# Project Documentation'', nl @ ''Generated by Smriti Auto-Doc'' @ nl,
      ''## Modules'' @ nl]
     @ map (index_entry files_on_disk) (sort files)"

text \<open>\<open>AutoDoc._generate_index\<close>, lines 328-354.\<close>

definition generate_index :: "env \<Rightarrow> path list \<Rightarrow> state \<Rightarrow> exn option \<times> state" where
  "generate_index E files s =
     (let lines = index_lines (fs s) files in
      case write_text E index_path (join nl lines) s of
        (Some e, s') \<Rightarrow> (Some e, s')
      | (None, s') \<Rightarrow> (None, say Index_Generated s'))"

definition cache_file :: path where
  "cache_file = docs_dir @ [''.autodoc_cache.json'']"

text \<open>
  \<open>AutoDoc._load_cache\<close>, lines 276-282: whatever \<open>json.loads\<close> returns is the cache,
  be it a dictionary or not; an absent file and a parse that raises give the empty
  dictionary.
\<close>

definition load_cache :: "env \<Rightarrow> (path \<rightharpoonup> string) \<Rightarrow> pyval" where
  "load_cache E files_on_disk =
     (case files_on_disk cache_file of
        None \<Rightarrow> PDict []
      | Some txt \<Rightarrow> (case json_loads E txt of None \<Rightarrow> PDict [] | Some v \<Rightarrow> v))"

text \<open>
  The state type holds a cache from strings to strings, which is what the program itself
  writes to the cache file. \<open>AutoDoc.__init__\<close> starts a run from such a cache; a cache
  file with any other JSON value (a list, a number, a dictionary with a value that is not a
  string) is outside the state type: there \<open>init\<close> is \<open>None\<close> and no theorem below speaks
  of the run.
\<close>

fun cache_entries :: "(pyval \<times> pyval) list \<Rightarrow> (string \<rightharpoonup> string) option" where
  "cache_entries [] = Some Map.empty"
| "cache_entries ((PStr k, PStr v) # kvs) =
     (case cache_entries kvs of
        None \<Rightarrow> None
      | Some c \<Rightarrow> Some (c(k \<mapsto> v)))"
| "cache_entries (kv # kvs) = None"

definition init :: "env \<Rightarrow> (path \<rightharpoonup> string) \<Rightarrow> state option" where
  "init E files_on_disk =
     (case load_cache E files_on_disk of
        PDict kvs \<Rightarrow>
          (case cache_entries kvs of
             None \<Rightarrow> None
           | Some c \<Rightarrow> Some \<lparr>cache = c, fs = files_on_disk, printed = []\<rparr>)
      | _ \<Rightarrow> None)"

text \<open>\<open>AutoDoc._save_cache\<close>, lines 284-285.\<close>

definition save_cache :: "env \<Rightarrow> state \<Rightarrow> exn option \<times> state" where
  "save_cache E s = write_text E cache_file (dump_cache E (cache s)) s"

text \<open>
  A directory listing, in the order \<open>os.walk\<close> reports it. \<open>AutoDoc._scan_files\<close>, lines
  188-199, visits a directory's files first and then descends into the directories whose
  name is not in \<open>skip_dirs\<close>.
\<close>

datatype entry = File string | Dir string "entry list"

definition skip_dirs :: "string list" where
  "skip_dirs = [''.git'', ''__pycache__'', ''vocab'', ''venv'', ''env'', ''node_modules'', ''docs'']"

fun py_files :: "path \<Rightarrow> entry list \<Rightarrow> path list" where
  "py_files root [] = []"
| "py_files root (File name # es) =
     (if suffix ''.py'' name then (root @ [name]) # py_files root es else py_files root es)"
| "py_files root (Dir name sub # es) = py_files root es"

fun walk :: "path \<Rightarrow> entry list \<Rightarrow> path list" where
  "walk root [] = []"
| "walk root (File name # es) = walk root es"
| "walk root (Dir name sub # es) =
     (if name \<in> set skip_dirs then []
      else py_files (root @ [name]) sub @ walk (root @ [name]) sub)
     @ walk root es"

definition scan_files :: "entry list \<Rightarrow> path list" where
  "scan_files tree = py_files [] tree @ walk [] tree"

text \<open>
  \<open>AutoDoc.run\<close>, lines 164-186. An exception of \<open>_process_file\<close> is not caught here: it
  ends the run before the index and the cache file are written.
\<close>

definition run :: "env \<Rightarrow> entry list \<Rightarrow> state \<Rightarrow> exn option \<times> state" where
  "run E tree s =
     (let s0 = say Output_Directory (say Starting s) in
      if \<not> can_mkdir E docs_dir then (Some (OSError docs_dir), s0)
      else
        let files = scan_files tree in
        if files = [] then (None, say No_Files_Found s0)
        else
          case process_files E files (say (Found_Files (length files)) s0) of
            (Some e, s1) \<Rightarrow> (Some e, s1)
          | (None, s1) \<Rightarrow>
         (case generate_index E files s1 of
            (Some e, s2) \<Rightarrow> (Some e, s2)
          | (None, s2) \<Rightarrow>
         (case save_cache E s2 of
            (Some e, s3) \<Rightarrow> (Some e, s3)
          | (None, s3) \<Rightarrow> (None, say Documentation_Complete s3))))"

section \<open>A concrete project\<close>

text \<open>
  The project of the repository's tests: one unit \<open>src/api.py\<close> whose content triggers the
  API heuristic. The replies of the service, the YAML parser, the validator's verdict and
  the writable paths vary from one example to the next.
\<close>

definition example_unit :: path where
  "example_unit = [''src'', ''api.py'']"

definition example_tree :: "entry list" where
  "example_tree =
     [Dir ''.git'' [File ''config''],
      Dir ''src'' [File ''api.py'', File ''ignored.txt'']]"

definition example_code :: string where
  "example_code = ''class APIView:'' @ nl @ ''    def get(self): pass''"

definition example_env ::
  "llm_response \<Rightarrow> llm_response \<Rightarrow> (string \<Rightarrow> pyval option) \<Rightarrow> validation
     \<Rightarrow> (path \<Rightarrow> bool) \<Rightarrow> env" where
  "example_env docs fragment load verdict writable =
     \<lparr>project_name = ''Demo'',
      read_text = (\<lambda>p. if p = example_unit then Some example_code else None),
      md5_hex = (\<lambda>code. if code = example_code then ''ea2e7f85c3c2d3504201557b5e77b432''
                         else ''d41d8cd98f00b204e9800998ecf8427e''),
      docs_response = (\<lambda>code. docs),
      fragment_response = (\<lambda>code. fragment),
      safe_load = load,
      validate = (\<lambda>spec. verdict),
      yaml_dump = (\<lambda>spec. ''openapi: 3.0.0''),
      json_dumps = (\<lambda>spec. ''{}''),
      format_value = (\<lambda>v. case v of PStr t \<Rightarrow> t | _ \<Rightarrow> ''None''),
      can_mkdir = (\<lambda>p. True),
      can_write = writable,
      partial_write = (\<lambda>p. None),
      dump_cache = (\<lambda>c. ''{}''),
      json_loads = (\<lambda>txt. None)\<rparr>"

definition empty_state :: state where
  "empty_state = \<lparr>cache = Map.empty, fs = Map.empty, printed = []\<rparr>"

text \<open>
  The run of the repository's test \<open>test_openapi_generation\<close>: the prose reply is \<open># Doc\<close>,
  the fragment has the one path \<open>/api/test\<close>, the validator accepts and every path is
  writable.
\<close>

definition example_fragment :: pyval where
  "example_fragment =
     PDict [(PStr ''paths'',
             PDict [(PStr ''/api/test'',
                     PDict [(PStr ''get'', PDict [(PStr ''summary'', PStr ''Test Endpoint'')])])])]"

definition test_env :: env where
  "test_env =
     example_env (Content ''# Doc'')
       (Content ''paths: {/api/test: {get: {summary: Test Endpoint}}}'')
       (\<lambda>t. if t = ''paths: {/api/test: {get: {summary: Test Endpoint}}}''
            then Some example_fragment else None)
       Valid (\<lambda>p. True)"


section \<open>Auxiliary facts\<close>

subsection \<open>Writing a file\<close>

lemma write_text_ok: "can_write E p \<Longrightarrow> write_text E p txt s = (None, write_file p txt s)"
  by (simp add: write_text_def)

lemma write_text_refused:
  "\<not> can_write E p \<Longrightarrow> partial_write E p = None \<Longrightarrow>
   write_text E p txt s = (Some (OSError p), s)"
  by (simp add: write_text_def)

lemma write_text_returns:
  "write_text E p txt s = (None, s') \<Longrightarrow> can_write E p \<and> s' = write_file p txt s"
  by (simp add: write_text_def split: if_splits)

lemma write_text_raises:
  "write_text E p txt s = (Some e, s') \<Longrightarrow>
   \<not> can_write E p \<and> e = OSError p \<and> cache s' = cache s \<and> printed s' = printed s
   \<and> (\<forall>q. q \<noteq> p \<longrightarrow> fs s' q = fs s q)
   \<and> (fs s' p = fs s p \<or> (\<exists>n. fs s' p = Some (take n txt)))"
  by (auto simp: write_text_def write_file_def split: if_splits option.splits)

lemma write_text_cache: "cache (snd (write_text E p txt s)) = cache s"
  by (simp add: write_text_def write_file_def split: option.splits)

lemma write_text_fs_other: "q \<noteq> p \<Longrightarrow> fs (snd (write_text E p txt s)) q = fs s q"
  by (simp add: write_text_def write_file_def split: option.splits)

lemma write_text_dom: "q \<in> dom (fs s) \<Longrightarrow> q \<in> dom (fs (snd (write_text E p txt s)))"
  by (auto simp: write_text_def write_file_def split: option.splits)

subsection \<open>What the steps of one unit do to the cache and to the disk\<close>

lemma write_spec_cache: "cache (snd (write_spec E p fragment s)) = cache s"
  by (auto simp: write_spec_def Let_def say_def write_text_def write_file_def
      split: sum.splits bool.splits validation.splits option.splits prod.splits)

lemma write_spec_dom: "q \<in> dom (fs s) \<Longrightarrow> q \<in> dom (fs (snd (write_spec E p fragment s)))"
  by (auto simp: write_spec_def Let_def say_def write_text_def write_file_def
      split: sum.splits bool.splits validation.splits option.splits prod.splits)

lemma write_spec_fs_other:
  "q \<noteq> artifact_path p ''.yaml'' \<Longrightarrow> q \<noteq> artifact_path p ''.html'' \<Longrightarrow>
   fs (snd (write_spec E p fragment s)) q = fs s q"
  by (auto simp: write_spec_def Let_def say_def write_text_def write_file_def
      split: sum.splits bool.splits validation.splits option.splits prod.splits)

lemma artifact_path_inj: "artifact_path p e1 = artifact_path p e2 \<longleftrightarrow> e1 = e2"
  by (simp add: artifact_path_def)

lemma process_file_read_error:
  "read_text E p = None \<Longrightarrow>
   process_file E p s = (None, say Read_Error (say (Processing (path_str p)) s))"
  by (simp add: process_file_def)

lemma process_file_skip:
  "read_text E p = Some code \<Longrightarrow> cache s (path_str p) = Some (md5_hex E code) \<Longrightarrow>
   process_file E p s = (None, say Skipping_Unchanged (say (Processing (path_str p)) s))"
  by (simp add: process_file_def say_def dom_def)

lemma process_file_mkdir_fails:
  "read_text E p = Some code \<Longrightarrow> cache s (path_str p) \<noteq> Some (md5_hex E code) \<Longrightarrow>
   \<not> can_mkdir E (butlast (artifact_path p ''.md'')) \<Longrightarrow>
   process_file E p s =
     (Some (OSError (butlast (artifact_path p ''.md''))),
      (say (Processing (path_str p)) s)
        \<lparr>cache := (cache s)(path_str p \<mapsto> md5_hex E code)\<rparr>)"
  by (simp add: process_file_def say_def Let_def)

lemma process_file_write_fails:
  "read_text E p = Some code \<Longrightarrow> cache s (path_str p) \<noteq> Some (md5_hex E code) \<Longrightarrow>
   can_mkdir E (butlast (artifact_path p ''.md'')) \<Longrightarrow>
   \<not> can_write E (artifact_path p ''.md'') \<Longrightarrow>
   process_file E p s =
     write_text E (artifact_path p ''.md'') (generate_docs (docs_response E code))
       ((say (Processing (path_str p)) s)
          \<lparr>cache := (cache s)(path_str p \<mapsto> md5_hex E code)\<rparr>)"
  by (simp add: process_file_def say_def Let_def write_text_def)

lemma process_file_plain:
  "read_text E p = Some code \<Longrightarrow> cache s (path_str p) \<noteq> Some (md5_hex E code) \<Longrightarrow>
   can_mkdir E (butlast (artifact_path p ''.md'')) \<Longrightarrow>
   can_write E (artifact_path p ''.md'') \<Longrightarrow> \<not> api_like code \<Longrightarrow>
   process_file E p s =
     (None,
      say (Saved_To (artifact_path p ''.md''))
        (write_file (artifact_path p ''.md'') (generate_docs (docs_response E code))
          ((say (Processing (path_str p)) s)
             \<lparr>cache := (cache s)(path_str p \<mapsto> md5_hex E code)\<rparr>)))"
  by (simp add: process_file_def say_def Let_def write_text_def)

lemma process_file_api:
  assumes "read_text E p = Some code" and "cache s (path_str p) \<noteq> Some (md5_hex E code)"
    and "can_mkdir E (butlast (artifact_path p ''.md''))"
    and "can_write E (artifact_path p ''.md'')" and "api_like code"
  shows "\<exists>s4. process_file E p s = write_spec E p (fst (generate_openapi_fragment E code)) s4
           \<and> cache s4 = (cache s)(path_str p \<mapsto> md5_hex E code)
           \<and> fs s4 = (fs s)(artifact_path p ''.md'' \<mapsto> generate_docs (docs_response E code))"
proof -
  obtain fragment warnings where g: "generate_openapi_fragment E code = (fragment, warnings)"
    by (cases "generate_openapi_fragment E code")
  show ?thesis
    using assms
    apply (simp add: process_file_def Let_def g say_def write_file_def write_text_def)
    apply (intro exI conjI)
      apply (rule refl)
     apply simp_all
    done
qed

lemma process_file_cases [case_names read_error skip mkdir_fails write_fails plain api]:
  obtains "read_text E p = None"
  | code where "read_text E p = Some code" "cache s (path_str p) = Some (md5_hex E code)"
  | code where "read_text E p = Some code" "cache s (path_str p) \<noteq> Some (md5_hex E code)"
      "\<not> can_mkdir E (butlast (artifact_path p ''.md''))"
  | code where "read_text E p = Some code" "cache s (path_str p) \<noteq> Some (md5_hex E code)"
      "can_mkdir E (butlast (artifact_path p ''.md''))" "\<not> can_write E (artifact_path p ''.md'')"
  | code where "read_text E p = Some code" "cache s (path_str p) \<noteq> Some (md5_hex E code)"
      "can_mkdir E (butlast (artifact_path p ''.md''))" "can_write E (artifact_path p ''.md'')"
      "\<not> api_like code"
  | code where "read_text E p = Some code" "cache s (path_str p) \<noteq> Some (md5_hex E code)"
      "can_mkdir E (butlast (artifact_path p ''.md''))" "can_write E (artifact_path p ''.md'')"
      "api_like code"
  by (cases "read_text E p") auto

lemma process_file_fs_other:
  assumes "q \<noteq> artifact_path p ''.md''" and "q \<noteq> artifact_path p ''.yaml''"
    and "q \<noteq> artifact_path p ''.html''"
  shows "fs (snd (process_file E p s)) q = fs s q"
proof (rule process_file_cases [where E=E and p=p and s=s])
  fix code
  assume api: "read_text E p = Some code" "cache s (path_str p) \<noteq> Some (md5_hex E code)"
      "can_mkdir E (butlast (artifact_path p ''.md''))" "can_write E (artifact_path p ''.md'')"
      "api_like code"
  from process_file_api [OF api] obtain s4 where
    "process_file E p s = write_spec E p (fst (generate_openapi_fragment E code)) s4"
    "fs s4 = (fs s)(artifact_path p ''.md'' \<mapsto> generate_docs (docs_response E code))"
    by blast
  then show ?thesis
    using assms by (simp add: write_spec_fs_other)
qed (use assms in \<open>auto simp: process_file_read_error process_file_skip process_file_mkdir_fails
      process_file_write_fails process_file_plain say_def write_file_def write_text_fs_other\<close>)

lemma process_file_cache_other:
  assumes "k \<noteq> path_str p"
  shows "cache (snd (process_file E p s)) k = cache s k"
proof (rule process_file_cases [where E=E and p=p and s=s])
  fix code
  assume api: "read_text E p = Some code" "cache s (path_str p) \<noteq> Some (md5_hex E code)"
      "can_mkdir E (butlast (artifact_path p ''.md''))" "can_write E (artifact_path p ''.md'')"
      "api_like code"
  from process_file_api [OF api] obtain s4 where
    "process_file E p s = write_spec E p (fst (generate_openapi_fragment E code)) s4"
    "cache s4 = (cache s)(path_str p \<mapsto> md5_hex E code)"
    by blast
  then show ?thesis
    using assms by (simp add: write_spec_cache)
qed (use assms in \<open>auto simp: process_file_read_error process_file_skip process_file_mkdir_fails
      process_file_write_fails process_file_plain say_def write_file_def write_text_cache\<close>)

lemma process_file_recorded:
  assumes "process_file E p s = (None, s')" and "cache s' \<noteq> cache s"
  shows "\<exists>code. read_text E p = Some code
           \<and> cache s' = (cache s)(path_str p \<mapsto> md5_hex E code)
           \<and> fs s' (artifact_path p ''.md'') = Some (generate_docs (docs_response E code))"
proof (rule process_file_cases [where E=E and p=p and s=s])
  fix code
  assume api: "read_text E p = Some code" "cache s (path_str p) \<noteq> Some (md5_hex E code)"
      "can_mkdir E (butlast (artifact_path p ''.md''))" "can_write E (artifact_path p ''.md'')"
      "api_like code"
  from process_file_api [OF api] obtain s4 where
    e: "process_file E p s = write_spec E p (fst (generate_openapi_fragment E code)) s4"
    and c: "cache s4 = (cache s)(path_str p \<mapsto> md5_hex E code)"
    and f: "fs s4 = (fs s)(artifact_path p ''.md'' \<mapsto> generate_docs (docs_response E code))"
    by blast
  have "cache (snd (process_file E p s)) = (cache s)(path_str p \<mapsto> md5_hex E code)"
    using e c by (simp add: write_spec_cache)
  moreover have "fs (snd (process_file E p s)) (artifact_path p ''.md'')
                   = Some (generate_docs (docs_response E code))"
    using e f by (simp add: write_spec_fs_other artifact_path_inj)
  ultimately show ?thesis using assms(1) api(1) by simp
next
  fix code
  assume w: "read_text E p = Some code" "cache s (path_str p) \<noteq> Some (md5_hex E code)"
      "can_mkdir E (butlast (artifact_path p ''.md''))" "\<not> can_write E (artifact_path p ''.md'')"
  with assms(1) show ?thesis
    by (simp add: process_file_write_fails write_text_def)
qed (use assms in \<open>auto simp: process_file_read_error process_file_skip process_file_mkdir_fails
      process_file_plain say_def write_file_def\<close>)

subsection \<open>The cache file, the index and the run\<close>

lemma artifact_not_cache_file:
  assumes "ext \<in> {''.md'', ''.yaml'', ''.html''}"
  shows "artifact_path p ext \<noteq> cache_file"
proof
  assume "artifact_path p ext = cache_file"
  then have "last (last (artifact_path p ext)) = last (last cache_file)" by simp
  with assms show False by (auto simp: artifact_path_def cache_file_def)
qed

lemma index_not_cache_file: "index_path \<noteq> cache_file"
  by (simp add: index_path_def cache_file_def)

lemma process_file_keeps_cache_file:
  "fs (snd (process_file E p s)) cache_file = fs s cache_file"
  using artifact_not_cache_file [of "''.md''" p] artifact_not_cache_file [of "''.yaml''" p]
    artifact_not_cache_file [of "''.html''" p]
  by (intro process_file_fs_other) auto

lemma process_files_keeps_cache_file:
  "fs (snd (process_files E files s)) cache_file = fs s cache_file"
proof (induction files arbitrary: s)
  case Nil
  then show ?case by simp
next
  case (Cons f files)
  obtain r s1 where r: "process_file E f s = (r, s1)" by (cases "process_file E f s")
  then have "fs s1 cache_file = fs s cache_file"
    using process_file_keeps_cache_file [of E f s] by simp
  then show ?case using Cons.IH [of s1] r by (cases r) simp_all
qed

lemma generate_index_returns:
  "generate_index E files s = (None, s') \<Longrightarrow>
   can_write E index_path \<and> cache s' = cache s
   \<and> fs s' = (fs s)(index_path \<mapsto> join nl (index_lines (fs s) files))"
  by (auto simp: generate_index_def Let_def write_text_def write_file_def say_def
      split: if_splits option.splits)

lemma generate_index_keeps_cache_file:
  "fs (snd (generate_index E files s)) cache_file = fs s cache_file"
  using index_not_cache_file
  by (auto simp: generate_index_def Let_def write_text_def write_file_def say_def
      split: if_splits option.splits)

lemma run_cases [case_names mkdir_fails no_files unit_raises index_raises finished]:
  fixes E tree s
  defines "files \<equiv> scan_files tree"
    and "s0 \<equiv> say Output_Directory (say Starting s)"
  obtains "\<not> can_mkdir E docs_dir" "run E tree s = (Some (OSError docs_dir), s0)"
  | "files = []" "run E tree s = (None, say No_Files_Found s0)"
  | e s1 where "files \<noteq> []"
      "process_files E files (say (Found_Files (length files)) s0) = (Some e, s1)"
      "run E tree s = (Some e, s1)"
  | e s1 s2 where "files \<noteq> []"
      "process_files E files (say (Found_Files (length files)) s0) = (None, s1)"
      "generate_index E files s1 = (Some e, s2)" "run E tree s = (Some e, s2)"
  | s1 s2 where "files \<noteq> []"
      "process_files E files (say (Found_Files (length files)) s0) = (None, s1)"
      "generate_index E files s1 = (None, s2)"
      "run E tree s
         = (case save_cache E s2 of (Some e, s3) \<Rightarrow> (Some e, s3)
            | (None, s3) \<Rightarrow> (None, say Documentation_Complete s3))"
proof (cases "can_mkdir E docs_dir")
  case False
  then show ?thesis using that(1) by (simp add: run_def s0_def)
next
  case mk: True
  show ?thesis
  proof (cases "files = []")
    case True
    then show ?thesis using that(2) mk by (simp add: run_def s0_def files_def)
  next
    case ne: False
    obtain r1 s1 where p: "process_files E files (say (Found_Files (length files)) s0) = (r1, s1)"
      by (cases "process_files E files (say (Found_Files (length files)) s0)")
    show ?thesis
    proof (cases r1)
      case (Some e)
      with p ne mk show ?thesis using that(3) [of e s1]
        by (simp add: run_def s0_def files_def)
    next
      case None
      obtain r2 s2 where g: "generate_index E files s1 = (r2, s2)"
        by (cases "generate_index E files s1")
      show ?thesis
      proof (cases r2)
        case (Some e)
        with None p g ne mk show ?thesis using that(4) [of s1 e s2]
          by (simp add: run_def s0_def files_def)
      next
        case n2: None
        with None p g ne mk show ?thesis using that(5) [of s1 s2]
          by (simp add: run_def s0_def files_def)
      qed
    qed
  qed
qed

subsection \<open>Fragments and the assembled specification\<close>

lemma write_spec_falsy: "\<not> py_truthy fragment \<Longrightarrow> write_spec E p fragment s = (None, s)"
  by (simp add: write_spec_def)

lemma write_spec_dict_without_paths:
  "PStr ''paths'' \<notin> fst ` set d \<Longrightarrow> write_spec E p (PDict d) s = (None, s)"
  by (simp add: write_spec_def)

lemma assemble_dict: "\<exists>spec. assemble project file_name (PDict d) = Inr spec"
  by (simp add: assemble_def)

lemma json_serializable_lookup:
  "json_serializable (PDict d) \<Longrightarrow> map_of d k = Some v \<Longrightarrow> json_serializable v"
  by (auto dest!: map_of_SomeD)

lemma assemble_serializable:
  assumes "json_serializable (PDict d)" and "assemble project file_name (PDict d) = Inr spec"
  shows "json_serializable spec"
  using assms(2) json_serializable_lookup [OF assms(1)]
  by (auto simp: assemble_def split: option.splits)

lemma create_swagger_html_assembled:
  "assemble project file_name fragment = Inr spec \<Longrightarrow> json_serializable spec \<Longrightarrow>
   \<exists>html. create_swagger_html E spec = Inr html"
  by (cases fragment) (auto simp: assemble_def create_swagger_html_def Let_def)

lemma create_swagger_html_not_serializable:
  "\<not> json_serializable spec \<Longrightarrow>
   create_swagger_html E spec = Inl (TypeError ''Object is not JSON serializable'')"
  by (simp add: create_swagger_html_def)

lemma write_spec_dict_with_paths:
  assumes "PStr ''paths'' \<in> fst ` set d" and "json_serializable (PDict d)"
    and "can_write E (artifact_path p ''.yaml'')" and "can_write E (artifact_path p ''.html'')"
  shows "\<exists>spec html. assemble (project_name E) (last p) (PDict d) = Inr spec
           \<and> create_swagger_html E spec = Inr html
           \<and> fst (write_spec E p (PDict d) s) = None
           \<and> fs (snd (write_spec E p (PDict d) s))
               = (fs s)(artifact_path p ''.yaml'' \<mapsto> yaml_dump E spec,
                        artifact_path p ''.html'' \<mapsto> html)"
proof -
  obtain spec where a: "assemble (project_name E) (last p) (PDict d) = Inr spec"
    using assemble_dict by blast
  from create_swagger_html_assembled [OF a assemble_serializable [OF assms(2) a]] obtain html
    where h: "create_swagger_html E spec = Inr html" by blast
  from assms(1) have ne: "d \<noteq> []" by auto
  have "fst (write_spec E p (PDict d) s) = None
           \<and> fs (snd (write_spec E p (PDict d) s))
               = (fs s)(artifact_path p ''.yaml'' \<mapsto> yaml_dump E spec,
                        artifact_path p ''.html'' \<mapsto> html)"
    using assms a h ne
    by (cases "validate E spec")
      (simp_all add: write_spec_def Let_def say_def write_file_def write_text_def)
  with a h show ?thesis by blast
qed

subsection \<open>Paths and index entries\<close>

lemma stem_py: "x \<noteq> [] \<Longrightarrow> stem (x @ ''.py'') = x"
  by (simp add: stem_def rfind_def)

lemma set_stem: "set (stem n) \<subseteq> set n"
  by (auto simp: stem_def split: option.splits dest: in_set_takeD)

lemma join_snoc: "xs \<noteq> [] \<Longrightarrow> join sep (xs @ [y]) = join sep xs @ sep @ y"
  by (induction sep xs rule: join.induct) auto

lemma path_str_snoc: "xs \<noteq> [] \<Longrightarrow> path_str (xs @ [y]) = path_str xs @ ''/'' @ y"
  unfolding path_str_def by (rule join_snoc)

lemma index_entry_rendered:
  "index_entry disk f
     = ''- ['' @ path_str f @ '']('' @ path_str (butlast f @ [stem (last f) @ ''.md'']) @ '')''
       @ (if artifact_path f ''.yaml'' \<in> dom disk
          then (if artifact_path f ''.html'' \<in> dom disk
                then '' ([OpenAPI]('' @ stem (last f) @ ''.yaml) | [Swagger UI](''
                     @ stem (last f) @ ''.html))''
                else '' ([OpenAPI]('' @ stem (last f) @ ''.yaml))'')
          else (if artifact_path f ''.html'' \<in> dom disk
                then '' ([Swagger UI]('' @ stem (last f) @ ''.html))''
                else ''''))"
  by (simp add: index_entry_def index_links_def Let_def)

subsection \<open>The concrete project, evaluated\<close>

lemma example_paths:
  "artifact_path example_unit ''.md'' = [''docs'', ''src'', ''api.md'']"
  "artifact_path example_unit ''.yaml'' = [''docs'', ''src'', ''api.yaml'']"
  "artifact_path example_unit ''.html'' = [''docs'', ''src'', ''api.html'']"
  "path_str example_unit = ''src/api.py''"
  "stem (last example_unit) = ''api''"
  "butlast example_unit = [''src'']"
  "last example_unit = ''api.py''"
  "stem ''api.py'' = ''api''"
  "path_str [''src'', ''api.md''] = ''src/api.md''"
  by (simp_all add: artifact_path_def example_unit_def docs_dir_def stem_def rfind_def
      path_str_def)

lemma example_api_like: "api_like example_code"
  by (simp add: api_like_def example_code_def)

lemma example_scan: "scan_files example_tree = [example_unit]"
  by (simp add: scan_files_def example_tree_def example_unit_def skip_dirs_def suffix_def)

lemma empty_state_fields:
  "cache empty_state = Map.empty" "fs empty_state = Map.empty" "printed empty_state = []"
  by (simp_all add: empty_state_def)

lemma test_env_fields:
  "project_name test_env = ''Demo''"
  "read_text test_env example_unit = Some example_code"
  "md5_hex test_env example_code = ''ea2e7f85c3c2d3504201557b5e77b432''"
  "docs_response test_env code = Content ''# Doc''"
  "validate test_env spec = Valid"
  "yaml_dump test_env spec = ''openapi: 3.0.0''"
  "json_dumps test_env spec = ''{}''"
  "can_mkdir test_env p"
  "can_write test_env p"
  "dump_cache test_env c = ''{}''"
  by (simp_all add: test_env_def example_env_def)

lemma test_fragment: "generate_openapi_fragment test_env example_code = (example_fragment, [])"
  by (simp add: generate_openapi_fragment_def test_env_def example_env_def call_llm_def
      strip_fragment_fences_def Let_def suffix_def strip_def py_isspace_def)

lemma test_process:
  "fst (process_file test_env example_unit empty_state) = None"
  "cache (snd (process_file test_env example_unit empty_state))
     = [''src/api.py'' \<mapsto> ''ea2e7f85c3c2d3504201557b5e77b432'']"
  "dom (fs (snd (process_file test_env example_unit empty_state)))
     = {[''docs'', ''src'', ''api.md''], [''docs'', ''src'', ''api.yaml''],
        [''docs'', ''src'', ''api.html'']}"
  by (auto simp add: process_file_def write_spec_def test_fragment generate_docs_def
      call_llm_def assemble_def create_swagger_html_def example_fragment_def write_text_def
      example_paths example_api_like empty_state_def say_def write_file_def Let_def suffix_def
      strip_def py_isspace_def test_env_fields)

lemma test_run:
  "fst (run test_env example_tree empty_state) = None"
  "cache (snd (run test_env example_tree empty_state))
     = [''src/api.py'' \<mapsto> ''ea2e7f85c3c2d3504201557b5e77b432'']"
  "dom (fs (snd (run test_env example_tree empty_state)))
     = {[''docs'', ''src'', ''api.md''], [''docs'', ''src'', ''api.yaml''],
        [''docs'', ''src'', ''api.html''], index_path, cache_file}"
  "fs (snd (run test_env example_tree empty_state)) cache_file = Some ''{}''"
  "fs (snd (run test_env example_tree empty_state)) index_path
     = Some (''# Project Documentation'' @ nl @ nl @ ''Generated by Smriti Auto-Doc'' @ nl @ nl
             @ ''## Modules'' @ nl @ nl
             @ ''- [src/api.py](src/api.md) ([OpenAPI](api.yaml) | [Swagger UI](api.html))'')"
  by (auto simp add: run_def example_scan generate_index_def save_cache_def index_lines_def
      index_entry_def index_links_def index_path_def cache_file_def docs_dir_def
      process_file_def write_spec_def test_fragment generate_docs_def write_text_def
      call_llm_def assemble_def create_swagger_html_def example_fragment_def
      example_paths example_api_like empty_state_def say_def write_file_def Let_def suffix_def
      strip_def py_isspace_def test_env_fields)

section \<open>The claims\<close>

text \<open>
  C1. The claim fails on the code. When the prose request fails, \<open>_call_llm\<close> returns the
  string \<open>Error: ...\<close> instead of raising; \<open>_process_file\<close> then records the digest in
  the cache, under the comment \<open>Save cache on success\<close>, and writes the error text as the
  prose document. Here both requests of the unit time out.
\<close>

theorem prose_failure_is_recorded:
  "process_file
     (example_env (Failure ''timeout'') (Failure ''timeout'')
        (\<lambda>t. if t = ''Error: timeout'' then Some (PDict [(PStr ''Error'', PStr ''timeout'')])
             else None)
        Valid (\<lambda>p. True))
     example_unit empty_state
   = (None,
      \<lparr>cache = [''src/api.py'' \<mapsto> ''ea2e7f85c3c2d3504201557b5e77b432''],
       fs = [ [''docs'', ''src'', ''api.md''] \<mapsto> ''Error: timeout''],
       printed = [Processing ''src/api.py'', Saved_To [''docs'', ''src'', ''api.md''],
                  Detecting_Api]\<rparr>)"
  by (simp add: process_file_def write_spec_def generate_openapi_fragment_def write_text_def
      generate_docs_def call_llm_def strip_fragment_fences_def example_env_def
      example_paths example_api_like empty_state_def say_def write_file_def Let_def suffix_def)

text \<open>
  C2, as the specification states it, fails: the cache entry is recorded before the prose
  document is written. When the write raises, the entry exists in memory and nothing of
  the unit is on disk.
\<close>

theorem cache_before_write_counterexample:
  "process_file
     (example_env (Content ''# Doc'') (Content ''paths: {}'') (\<lambda>t. None) Valid (\<lambda>p. False))
     example_unit empty_state
   = (Some (OSError [''docs'', ''src'', ''api.md'']),
      \<lparr>cache = [''src/api.py'' \<mapsto> ''ea2e7f85c3c2d3504201557b5e77b432''],
       fs = Map.empty,
       printed = [Processing ''src/api.py'']\<rparr>)"
  by (simp add: process_file_def example_env_def example_paths empty_state_def say_def Let_def
      write_text_def)

text \<open>
  C2, as the code has it, in three parts. When \<open>_process_file\<close> returns without an
  exception and has changed the cache, the unit was read, the entry it recorded is the
  digest of the content, and the prose document with the generated text is on disk at that
  moment. When the prose document cannot be opened for writing, \<open>_process_file\<close> raises
  with the entry already recorded and the disk as it was: the entry comes before the write.
  And whenever a run leaves the cache file different from what it was, every unit had been
  processed without an exception and the index had been written; the file then holds the
  text of the final cache, or the first characters of it when the write itself failed.
\<close>

theorem cache_entry_and_cache_file:
  "(process_file E p s = (None, s') \<and> cache s' \<noteq> cache s \<longrightarrow>
      (\<exists>code. read_text E p = Some code
         \<and> cache s' = (cache s)(path_str p \<mapsto> md5_hex E code)
         \<and> fs s' (artifact_path p ''.md'') = Some (generate_docs (docs_response E code))))
   \<and> (read_text E p = Some code \<and> cache s (path_str p) \<noteq> Some (md5_hex E code)
        \<and> can_mkdir E (butlast (artifact_path p ''.md''))
        \<and> \<not> can_write E (artifact_path p ''.md'')
        \<and> partial_write E (artifact_path p ''.md'') = None \<longrightarrow>
      fst (process_file E p s) = Some (OSError (artifact_path p ''.md''))
      \<and> cache (snd (process_file E p s)) (path_str p) = Some (md5_hex E code)
      \<and> fs (snd (process_file E p s)) = fs s)
   \<and> (run E tree t = (r, t') \<and> fs t' cache_file \<noteq> fs t cache_file \<longrightarrow>
      (\<exists>t1. process_files E (scan_files tree)
               (say (Found_Files (length (scan_files tree)))
                  (say Output_Directory (say Starting t))) = (None, t1)
         \<and> can_write E index_path
         \<and> (\<exists>n. fs t' cache_file = Some (take n (dump_cache E (cache t1))))
         \<and> (r = None \<longrightarrow> fs t' cache_file = Some (dump_cache E (cache t1)))))"
proof (intro conjI impI)
  assume "process_file E p s = (None, s') \<and> cache s' \<noteq> cache s"
  then show "\<exists>code. read_text E p = Some code
         \<and> cache s' = (cache s)(path_str p \<mapsto> md5_hex E code)
         \<and> fs s' (artifact_path p ''.md'') = Some (generate_docs (docs_response E code))"
    using process_file_recorded by blast
next
  assume a: "read_text E p = Some code \<and> cache s (path_str p) \<noteq> Some (md5_hex E code)
        \<and> can_mkdir E (butlast (artifact_path p ''.md''))
        \<and> \<not> can_write E (artifact_path p ''.md'')
        \<and> partial_write E (artifact_path p ''.md'') = None"
  then have "process_file E p s
      = (Some (OSError (artifact_path p ''.md'')),
         (say (Processing (path_str p)) s)
           \<lparr>cache := (cache s)(path_str p \<mapsto> md5_hex E code)\<rparr>)"
    by (simp add: process_file_write_fails write_text_refused)
  then show "fst (process_file E p s) = Some (OSError (artifact_path p ''.md''))"
    "cache (snd (process_file E p s)) (path_str p) = Some (md5_hex E code)"
    "fs (snd (process_file E p s)) = fs s"
    by (simp_all add: say_def)
next
  assume a: "run E tree t = (r, t') \<and> fs t' cache_file \<noteq> fs t cache_file"
  let ?s0 = "say (Found_Files (length (scan_files tree))) (say Output_Directory (say Starting t))"
  have keep: "fs (snd (process_files E (scan_files tree) ?s0)) cache_file = fs t cache_file"
    by (simp add: process_files_keeps_cache_file say_def)
  show "\<exists>t1. process_files E (scan_files tree) ?s0 = (None, t1)
         \<and> can_write E index_path
         \<and> (\<exists>n. fs t' cache_file = Some (take n (dump_cache E (cache t1))))
         \<and> (r = None \<longrightarrow> fs t' cache_file = Some (dump_cache E (cache t1)))"
  proof (rule run_cases [where E=E and tree=tree and s=t])
    fix s1 s2
    assume p: "process_files E (scan_files tree) ?s0 = (None, s1)"
      and g: "generate_index E (scan_files tree) s1 = (None, s2)"
      and r: "run E tree t
         = (case save_cache E s2 of (Some e, s3) \<Rightarrow> (Some e, s3)
            | (None, s3) \<Rightarrow> (None, say Documentation_Complete s3))"
    from generate_index_returns [OF g] index_not_cache_file
    have g': "can_write E index_path" "cache s2 = cache s1"
      "fs s2 cache_file = fs s1 cache_file" by auto
    from keep p have k: "fs s1 cache_file = fs t cache_file" by simp
    from a r g' k have
      "(\<exists>n. fs t' cache_file = Some (take n (dump_cache E (cache s1))))
         \<and> (r = None \<longrightarrow> fs t' cache_file = Some (dump_cache E (cache s1)))"
      by (auto simp: save_cache_def write_text_def write_file_def say_def
          split: if_splits option.splits intro: exI [of _ "length (dump_cache E (cache s1))"])
    with p g' show ?thesis by blast
  next
    fix e s1 s2
    assume "process_files E (scan_files tree) ?s0 = (None, s1)"
      "generate_index E (scan_files tree) s1 = (Some e, s2)" "run E tree t = (Some e, s2)"
    with a keep generate_index_keeps_cache_file [of E "scan_files tree" s1]
    show ?thesis by simp
  next
    fix e s1
    assume "process_files E (scan_files tree) ?s0 = (Some e, s1)" "run E tree t = (Some e, s1)"
    with a keep show ?thesis by simp
  qed (use a in \<open>auto simp: say_def\<close>)
qed

text \<open>
  C2, witness: the unit of the test run is recorded with its document; on a disk that
  refuses every write the entry is recorded all the same; the test run writes the cache
  file.
\<close>

theorem cache_entry_and_cache_file_witness:
  "process_file test_env example_unit empty_state
     = (None, snd (process_file test_env example_unit empty_state))
   \<and> cache (snd (process_file test_env example_unit empty_state)) \<noteq> cache empty_state
   \<and> fs (snd (process_file test_env example_unit empty_state))
        (artifact_path example_unit ''.md'') = Some ''# Doc''
   \<and> fst (process_file
            (example_env (Content ''# Doc'') (Content ''paths: {}'') (\<lambda>t. None) Valid
               (\<lambda>p. False)) example_unit empty_state)
       = Some (OSError (artifact_path example_unit ''.md''))
   \<and> cache (snd (process_file
            (example_env (Content ''# Doc'') (Content ''paths: {}'') (\<lambda>t. None) Valid
               (\<lambda>p. False)) example_unit empty_state)) ''src/api.py''
       = Some ''ea2e7f85c3c2d3504201557b5e77b432''
   \<and> fs (snd (run test_env example_tree empty_state)) cache_file
       \<noteq> fs empty_state cache_file
   \<and> (\<exists>t1. process_files test_env (scan_files example_tree)
               (say (Found_Files (length (scan_files example_tree)))
                  (say Output_Directory (say Starting empty_state))) = (None, t1)
         \<and> fs (snd (run test_env example_tree empty_state)) cache_file
             = Some (dump_cache test_env (cache t1)))"
proof -
  let ?F = "example_env (Content ''# Doc'') (Content ''paths: {}'') (\<lambda>t. None) Valid (\<lambda>p. False)"
  have a: "process_file test_env example_unit empty_state
             = (None, snd (process_file test_env example_unit empty_state))"
    using test_process(1) by (simp add: prod_eq_iff)
  have b: "cache (snd (process_file test_env example_unit empty_state)) \<noteq> cache empty_state"
    by (simp add: test_process(2) empty_state_fields fun_eq_iff)
  have c: "read_text ?F example_unit = Some example_code
        \<and> cache empty_state (path_str example_unit) \<noteq> Some (md5_hex ?F example_code)
        \<and> can_mkdir ?F (butlast (artifact_path example_unit ''.md''))
        \<and> \<not> can_write ?F (artifact_path example_unit ''.md'')
        \<and> partial_write ?F (artifact_path example_unit ''.md'') = None"
    by (simp add: example_env_def empty_state_fields)
  have d: "run test_env example_tree empty_state
             = (None, snd (run test_env example_tree empty_state))"
    using test_run(1) by (simp add: prod_eq_iff)
  have e: "fs (snd (run test_env example_tree empty_state)) cache_file
             \<noteq> fs empty_state cache_file"
    by (simp add: test_run(4) empty_state_fields)
  note T = cache_entry_and_cache_file
  from T [where E = test_env and p = example_unit and s = empty_state
            and s' = "snd (process_file test_env example_unit empty_state)"] a b
  obtain code where "read_text test_env example_unit = Some code"
    "fs (snd (process_file test_env example_unit empty_state))
        (artifact_path example_unit ''.md'') = Some (generate_docs (docs_response test_env code))"
    by blast
  then have p1: "fs (snd (process_file test_env example_unit empty_state))
        (artifact_path example_unit ''.md'') = Some ''# Doc''"
    by (simp add: test_env_fields generate_docs_def call_llm_def Let_def strip_def
        py_isspace_def suffix_def)
  from T [where E = ?F and p = example_unit and s = empty_state and code = example_code] c
  have p2: "fst (process_file ?F example_unit empty_state)
              = Some (OSError (artifact_path example_unit ''.md''))"
    "cache (snd (process_file ?F example_unit empty_state)) (path_str example_unit)
              = Some (md5_hex ?F example_code)"
    by blast+
  from p2(2) have p2': "cache (snd (process_file ?F example_unit empty_state)) ''src/api.py''
       = Some ''ea2e7f85c3c2d3504201557b5e77b432''"
    by (simp add: example_paths example_env_def)
  from T [where E = test_env and tree = example_tree and t = empty_state and r = None
            and t' = "snd (run test_env example_tree empty_state)"] d e
  obtain t1 :: state where "process_files test_env (scan_files example_tree)
               (say (Found_Files (length (scan_files example_tree)))
                  (say Output_Directory (say Starting empty_state))) = (None, t1)"
    "fs (snd (run test_env example_tree empty_state)) cache_file
             = Some (dump_cache test_env (cache t1))"
    by blast
  with a b p1 p2(1) p2' e show ?thesis by blast
qed

text \<open>
  C3, as the specification states it, fails: a fragment whose \<open>paths\<close> mapping is empty
  still yields the spec and the viewer files, since line 239 tests the key only.
\<close>

theorem empty_paths_counterexample:
  "api_like example_code
   \<and> fst (generate_openapi_fragment
       (example_env (Content ''# Doc'') (Content ''paths: {}'')
          (\<lambda>t. if t = ''paths: {}'' then Some (PDict [(PStr ''paths'', PDict [])]) else None)
          Valid (\<lambda>p. True)) example_code) = PDict [(PStr ''paths'', PDict [])]
   \<and> dom (fs (snd (process_file
       (example_env (Content ''# Doc'') (Content ''paths: {}'')
          (\<lambda>t. if t = ''paths: {}'' then Some (PDict [(PStr ''paths'', PDict [])]) else None)
          Valid (\<lambda>p. True))
       example_unit empty_state)))
     = {[''docs'', ''src'', ''api.md''], [''docs'', ''src'', ''api.yaml''],
        [''docs'', ''src'', ''api.html'']}"
  by (auto simp add: process_file_def write_spec_def generate_openapi_fragment_def
      generate_docs_def call_llm_def strip_fragment_fences_def example_env_def assemble_def
      create_swagger_html_def write_text_def
      example_paths example_api_like empty_state_def say_def write_file_def Let_def suffix_def
      strip_def py_isspace_def)

text \<open>
  C3, as the code has it. Take a unit that is processed (read, not skipped by the cache) on
  a disk that accepts the three writes, and whose fragment, if requested, is \<open>None\<close> or a
  mapping that JSON can represent. Processing raises nothing. If the content matches the
  API heuristic and the fragment has the key \<open>paths\<close>, whatever is stored under it, the
  spec file and the viewer page are written, with the text of the assembled specification.
  Otherwise neither is written: a spec file or viewer page of an earlier run stays as it
  is.
\<close>

theorem spec_artifacts_iff:
  assumes "read_text E p = Some code" and "cache s (path_str p) \<noteq> Some (md5_hex E code)"
    and "can_mkdir E (butlast (artifact_path p ''.md''))"
    and "can_write E (artifact_path p ''.md'')"
    and "can_write E (artifact_path p ''.yaml'')" and "can_write E (artifact_path p ''.html'')"
    and "api_like code \<longrightarrow> fst (generate_openapi_fragment E code) = PNone
           \<or> (\<exists>d. fst (generate_openapi_fragment E code) = PDict d
                  \<and> json_serializable (PDict d))"
  shows "fst (process_file E p s) = None
       \<and> (api_like code
            \<and> (\<exists>d. fst (generate_openapi_fragment E code) = PDict d
                   \<and> PStr ''paths'' \<in> fst ` set d)
          \<longrightarrow> (\<exists>spec html.
                 assemble (project_name E) (last p) (fst (generate_openapi_fragment E code))
                   = Inr spec
                 \<and> create_swagger_html E spec = Inr html
                 \<and> fs (snd (process_file E p s)) (artifact_path p ''.yaml'')
                     = Some (yaml_dump E spec)
                 \<and> fs (snd (process_file E p s)) (artifact_path p ''.html'') = Some html))
       \<and> (\<not> (api_like code
               \<and> (\<exists>d. fst (generate_openapi_fragment E code) = PDict d
                      \<and> PStr ''paths'' \<in> fst ` set d))
          \<longrightarrow> fs (snd (process_file E p s)) (artifact_path p ''.yaml'')
                = fs s (artifact_path p ''.yaml'')
            \<and> fs (snd (process_file E p s)) (artifact_path p ''.html'')
                = fs s (artifact_path p ''.html''))"
proof (cases "api_like code")
  case False
  with assms show ?thesis
    by (simp add: process_file_plain say_def write_file_def artifact_path_inj)
next
  case True
  from process_file_api [OF assms(1-4) True] obtain s4 where
    p: "process_file E p s = write_spec E p (fst (generate_openapi_fragment E code)) s4"
    and f: "fs s4 = (fs s)(artifact_path p ''.md'' \<mapsto> generate_docs (docs_response E code))"
    by blast
  from f have old: "fs s4 (artifact_path p ''.yaml'') = fs s (artifact_path p ''.yaml'')"
      "fs s4 (artifact_path p ''.html'') = fs s (artifact_path p ''.html'')"
    by (simp_all add: artifact_path_inj)
  from assms(7) True consider "fst (generate_openapi_fragment E code) = PNone"
    | d where "fst (generate_openapi_fragment E code) = PDict d" "PStr ''paths'' \<notin> fst ` set d"
    | d where "fst (generate_openapi_fragment E code) = PDict d" "PStr ''paths'' \<in> fst ` set d"
        "json_serializable (PDict d)"
    by blast
  then show ?thesis
  proof cases
    case 1
    with p old True show ?thesis by (simp add: write_spec_falsy)
  next
    case 2
    with p old True show ?thesis by (simp add: write_spec_dict_without_paths)
  next
    case 3
    from write_spec_dict_with_paths [OF 3(2,3) assms(5,6), of s4] obtain spec html where
      "assemble (project_name E) (last p) (PDict d) = Inr spec"
      "create_swagger_html E spec = Inr html"
      "fst (write_spec E p (PDict d) s4) = None"
      "fs (snd (write_spec E p (PDict d) s4))
               = (fs s4)(artifact_path p ''.yaml'' \<mapsto> yaml_dump E spec,
                        artifact_path p ''.html'' \<mapsto> html)"
      by blast
    with p True 3(1,2) show ?thesis by (simp add: artifact_path_inj)
  qed
qed

text \<open>
  C3, witness: the unit of the test run, with the one path \<open>/api/test\<close>.
\<close>

theorem spec_artifacts_iff_witness:
  "api_like example_code
   \<and> fst (generate_openapi_fragment test_env example_code) = example_fragment
   \<and> fs (snd (process_file test_env example_unit empty_state))
        (artifact_path example_unit ''.yaml'') = Some ''openapi: 3.0.0''
   \<and> artifact_path example_unit ''.html''
       \<in> dom (fs (snd (process_file test_env example_unit empty_state)))"
proof -
  have a: "read_text test_env example_unit = Some example_code"
    and b: "cache empty_state (path_str example_unit) \<noteq> Some (md5_hex test_env example_code)"
    and c: "can_mkdir test_env (butlast (artifact_path example_unit ''.md''))"
    and d: "can_write test_env (artifact_path example_unit ''.md'')"
    and e: "can_write test_env (artifact_path example_unit ''.yaml'')"
    and f: "can_write test_env (artifact_path example_unit ''.html'')"
    and g: "api_like example_code \<longrightarrow>
              fst (generate_openapi_fragment test_env example_code) = PNone
              \<or> (\<exists>d. fst (generate_openapi_fragment test_env example_code) = PDict d
                    \<and> json_serializable (PDict d))"
    by (simp_all add: test_env_fields empty_state_fields test_fragment example_fragment_def)
  have h: "api_like example_code
            \<and> (\<exists>d. fst (generate_openapi_fragment test_env example_code) = PDict d
                   \<and> PStr ''paths'' \<in> fst ` set d)"
    by (simp add: example_api_like test_fragment example_fragment_def)
  from spec_artifacts_iff [where s = empty_state, OF a b c d e f g] h show ?thesis
    by (auto simp: example_api_like test_fragment test_env_fields)
qed

text \<open>
  C4. The claim fails on the code. The service answers the fragment request with the
  sentence \<open>No API paths found.\<close>, which YAML reads as a plain string. The string is
  truthy and contains \<open>paths\<close>, so line 244 calls \<open>.get\<close> on it: the
  \<open>AttributeError\<close> is caught nowhere and ends the run before the index and the cache
  file are written.
\<close>

theorem string_fragment_aborts_run:
  "fst (run
     (example_env (Content ''# Doc'') (Content ''No API paths found.'')
        (\<lambda>t. if t = ''No API paths found.'' then Some (PStr t) else None)
        Valid (\<lambda>p. True))
     example_tree empty_state)
   = Some (AttributeError ''str object has no attribute get'')
   \<and> fs (snd (run
     (example_env (Content ''# Doc'') (Content ''No API paths found.'')
        (\<lambda>t. if t = ''No API paths found.'' then Some (PStr t) else None)
        Valid (\<lambda>p. True))
     example_tree empty_state)) index_path = None
   \<and> fs (snd (run
     (example_env (Content ''# Doc'') (Content ''No API paths found.'')
        (\<lambda>t. if t = ''No API paths found.'' then Some (PStr t) else None)
        Valid (\<lambda>p. True))
     example_tree empty_state)) cache_file = None"
  by (simp add: run_def example_scan process_file_def write_spec_def generate_openapi_fragment_def
      generate_docs_def call_llm_def strip_fragment_fences_def example_env_def assemble_def
      example_paths example_api_like empty_state_def say_def write_file_def Let_def suffix_def
      strip_def py_isspace_def index_path_def cache_file_def docs_dir_def write_text_def)




text \<open>
  C6. For a unit that can be read: when the cache has no entry for its relative path, or
  the entry differs from the digest of the content, the unit is processed (the digest is
  recorded and, the output path being writable, the prose document is written); when the
  entry equals the digest the unit is skipped and nothing but the printed lines changes.
\<close>

theorem change_detection:
  assumes "read_text E p = Some code"
  shows "(path_str p \<notin> dom (cache s) \<or> cache s (path_str p) \<noteq> Some (md5_hex E code)
            \<longrightarrow> cache (snd (process_file E p s)) (path_str p) = Some (md5_hex E code)
              \<and> (can_mkdir E (butlast (artifact_path p ''.md''))
                   \<and> can_write E (artifact_path p ''.md'')
                 \<longrightarrow> fs (snd (process_file E p s)) (artifact_path p ''.md'')
                     = Some (generate_docs (docs_response E code))))
       \<and> (path_str p \<in> dom (cache s) \<and> cache s (path_str p) = Some (md5_hex E code)
            \<longrightarrow> process_file E p s
                = (None, say Skipping_Unchanged (say (Processing (path_str p)) s)))"
proof (rule process_file_cases [where E=E and p=p and s=s])
  fix code'
  assume api: "read_text E p = Some code'" "cache s (path_str p) \<noteq> Some (md5_hex E code')"
      "can_mkdir E (butlast (artifact_path p ''.md''))" "can_write E (artifact_path p ''.md'')"
      "api_like code'"
  from process_file_api [OF api] obtain s4 where
    "process_file E p s = write_spec E p (fst (generate_openapi_fragment E code')) s4"
    "cache s4 = (cache s)(path_str p \<mapsto> md5_hex E code')"
    "fs s4 = (fs s)(artifact_path p ''.md'' \<mapsto> generate_docs (docs_response E code'))"
    by blast
  then show ?thesis
    using assms api(1,2)
    by (simp add: write_spec_cache write_spec_fs_other artifact_path_inj)
qed (use assms in \<open>auto simp: process_file_read_error process_file_skip process_file_mkdir_fails
      process_file_write_fails process_file_plain say_def write_file_def write_text_cache\<close>)

text \<open>
  C6, witness: the unit of the concrete project, first with an empty cache, then with its
  digest in the cache.
\<close>

theorem change_detection_witness:
  "cache (snd (process_file
      (example_env (Content ''# Doc'') (Content ''paths: {}'') (\<lambda>t. None) Valid (\<lambda>p. True))
      example_unit empty_state)) ''src/api.py'' = Some ''ea2e7f85c3c2d3504201557b5e77b432''
   \<and> process_file
      (example_env (Content ''# Doc'') (Content ''paths: {}'') (\<lambda>t. None) Valid (\<lambda>p. True))
      example_unit
      (empty_state\<lparr>cache := [''src/api.py'' \<mapsto> ''ea2e7f85c3c2d3504201557b5e77b432'']\<rparr>)
     = (None, \<lparr>cache = [''src/api.py'' \<mapsto> ''ea2e7f85c3c2d3504201557b5e77b432''],
               fs = Map.empty, printed = [Processing ''src/api.py'', Skipping_Unchanged]\<rparr>)"
proof -
  let ?E = "example_env (Content ''# Doc'') (Content ''paths: {}'') (\<lambda>t. None) Valid (\<lambda>p. True)"
  have r: "read_text ?E example_unit = Some example_code"
    by (simp add: example_env_def)
  have k: "path_str example_unit = ''src/api.py''"
    by (simp add: path_str_def example_unit_def)
  from change_detection [OF r, of empty_state]
    change_detection [OF r,
      of "empty_state\<lparr>cache := [''src/api.py'' \<mapsto> ''ea2e7f85c3c2d3504201557b5e77b432'']\<rparr>"]
  show ?thesis
    by (simp add: k example_env_def empty_state_def say_def)
qed




text \<open>
  C8. When the validator rejects the assembled specification, or raises anything else,
  and the spec file can be written, the spec file is written with the text of the
  specification and the verdict is printed as one warning before it. The verdict changes
  nothing else: the exception that leaves the step, if any, the files on disk and the cache
  are those of the same step with a validator that accepts. In particular the viewer page
  is written as well whenever JSON can represent the specification and the page can be
  written.
\<close>

theorem validation_never_blocks:
  assumes "py_truthy fragment" and "py_in ''paths'' fragment = Inr True"
    and "assemble (project_name E) (last p) fragment = Inr spec"
    and "validate E spec \<noteq> Valid"
    and "can_write E (artifact_path p ''.yaml'')"
  shows "fs (snd (write_spec E p fragment s)) (artifact_path p ''.yaml'')
           = Some (yaml_dump E spec)
       \<and> (\<exists>e. validate E spec \<in> {Validation_Error e, Other_Exception e}
              \<and> prefix (printed s
                         @ [if validate E spec = Validation_Error e then Validation_Warning e
                            else Validation_Exception e,
                            Generated_Spec (artifact_path p ''.yaml'')])
                  (printed (snd (write_spec E p fragment s))))
       \<and> fst (write_spec E p fragment s)
           = fst (write_spec (E\<lparr>validate := \<lambda>spec. Valid\<rparr>) p fragment s)
       \<and> fs (snd (write_spec E p fragment s))
           = fs (snd (write_spec (E\<lparr>validate := \<lambda>spec. Valid\<rparr>) p fragment s))
       \<and> cache (snd (write_spec E p fragment s))
           = cache (snd (write_spec (E\<lparr>validate := \<lambda>spec. Valid\<rparr>) p fragment s))
       \<and> (json_serializable spec \<and> can_write E (artifact_path p ''.html'')
            \<longrightarrow> fst (write_spec E p fragment s) = None
              \<and> artifact_path p ''.html'' \<in> dom (fs (snd (write_spec E p fragment s))))"
proof -
  have h: "create_swagger_html (E\<lparr>validate := \<lambda>spec. Valid\<rparr>) spec = create_swagger_html E spec"
    by (simp add: create_swagger_html_def Let_def split: sum.splits)
  have j: "json_serializable spec \<Longrightarrow> \<exists>html. create_swagger_html E spec = Inr html"
    using create_swagger_html_assembled [OF assms(3)] by blast
  show ?thesis
    using assms h j
    by (cases "validate E spec"; cases "create_swagger_html E spec")
      (auto simp: write_spec_def Let_def say_def write_file_def write_text_def
        artifact_path_inj create_swagger_html_not_serializable
        split: option.splits)
qed

text \<open>
  C8, witness: the fragment of the test \<open>test_openapi_validation_failure\<close>, rejected by
  the validator.
\<close>

theorem validation_never_blocks_witness:
  "fst (write_spec
          (example_env (Content ''# Doc'') (Content ''paths: {/invalid: {}}'')
             (\<lambda>t. Some (PDict [(PStr ''paths'', PDict [(PStr ''/invalid'', PDict [])])]))
             (Validation_Error ''no operations'') (\<lambda>p. True))
          example_unit
          (PDict [(PStr ''paths'', PDict [(PStr ''/invalid'', PDict [])])])
          empty_state) = None
   \<and> fs (snd (write_spec
          (example_env (Content ''# Doc'') (Content ''paths: {/invalid: {}}'')
             (\<lambda>t. Some (PDict [(PStr ''paths'', PDict [(PStr ''/invalid'', PDict [])])]))
             (Validation_Error ''no operations'') (\<lambda>p. True))
          example_unit
          (PDict [(PStr ''paths'', PDict [(PStr ''/invalid'', PDict [])])])
          empty_state)) [''docs'', ''src'', ''api.yaml''] = Some ''openapi: 3.0.0''
   \<and> [''docs'', ''src'', ''api.html'']
       \<in> dom (fs (snd (write_spec
          (example_env (Content ''# Doc'') (Content ''paths: {/invalid: {}}'')
             (\<lambda>t. Some (PDict [(PStr ''paths'', PDict [(PStr ''/invalid'', PDict [])])]))
             (Validation_Error ''no operations'') (\<lambda>p. True))
          example_unit
          (PDict [(PStr ''paths'', PDict [(PStr ''/invalid'', PDict [])])])
          empty_state)))"
proof -
  let ?frag = "PDict [(PStr ''paths'', PDict [(PStr ''/invalid'', PDict [])])]"
  let ?E = "example_env (Content ''# Doc'') (Content ''paths: {/invalid: {}}'')
             (\<lambda>t. Some ?frag) (Validation_Error ''no operations'') (\<lambda>p. True)"
  let ?spec = "PDict
            [(PStr ''openapi'', PStr ''3.0.0''),
             (PStr ''info'', PDict
                [(PStr ''title'', PStr (''Demo API'' @ apostrophe @ ''s Documentation'')),
                 (PStr ''version'', PStr ''1.0.0''),
                 (PStr ''description'', PStr ''Auto-generated spec for api.py'')]),
             (PStr ''paths'', PDict [(PStr ''/invalid'', PDict [])]),
             (PStr ''components'', PDict [(PStr ''schemas'', PDict [])])]"
  have a: "py_truthy ?frag" by simp
  have b: "py_in ''paths'' ?frag = Inr True" by simp
  have c: "assemble (project_name ?E) (last example_unit) ?frag = Inr ?spec"
    by (simp add: assemble_def example_env_def example_unit_def)
  have d: "validate ?E ?spec \<noteq> Valid" by (simp add: example_env_def)
  have e: "can_write ?E (artifact_path example_unit ''.yaml'')" by (simp add: example_env_def)
  have f: "json_serializable ?spec \<and> can_write ?E (artifact_path example_unit ''.html'')"
    by (simp add: example_env_def)
  have y: "yaml_dump ?E ?spec = ''openapi: 3.0.0''" by (simp add: example_env_def)
  from validation_never_blocks [OF a b c d e, where s = empty_state] f
  have "fst (write_spec ?E example_unit ?frag empty_state) = None"
    "fs (snd (write_spec ?E example_unit ?frag empty_state))
       (artifact_path example_unit ''.yaml'') = Some (yaml_dump ?E ?spec)"
    "artifact_path example_unit ''.html''
       \<in> dom (fs (snd (write_spec ?E example_unit ?frag empty_state)))"
    by blast+
  then show ?thesis unfolding y by (simp add: example_paths)
qed

text \<open>
  C9, as the specification states it, fails: a run that discovers no unit returns at line
  177 and leaves the index of an earlier run, with its entry, on disk.
\<close>

theorem stale_index_counterexample:
  "scan_files [Dir ''docs'' [File ''README.md''], File ''notes.txt''] = []
   \<and> run (example_env (Content ''# Doc'') (Content ''paths: {}'') (\<lambda>t. None) Valid (\<lambda>p. True))
       [Dir ''docs'' [File ''README.md''], File ''notes.txt'']
       (empty_state\<lparr>fs := [index_path \<mapsto> ''- [old.py](old.md)'']\<rparr>)
     = (None, \<lparr>cache = Map.empty, fs = [index_path \<mapsto> ''- [old.py](old.md)''],
               printed = [Starting, Output_Directory, No_Files_Found]\<rparr>)
   \<and> ''- [old.py](old.md)''
       \<noteq> join nl (index_lines [index_path \<mapsto> ''- [old.py](old.md)''] [])"
  by (simp add: run_def scan_files_def skip_dirs_def suffix_def example_env_def empty_state_def
      say_def index_lines_def)

text \<open>
  C9, as the code has it, in three parts. After a run that discovers at least one unit and
  completes, the index file holds the three header lines and then one entry for each
  discovered unit, in the sorted order of the paths, each built from the disk as it is once
  all units are processed. An entry is the unit's path and its prose link, followed by the
  OpenAPI link exactly when the unit's spec file is on that disk and by the Swagger UI link
  exactly when its viewer page is. A run that discovers no unit leaves every file,
  the index included, as it is.
\<close>

theorem index_completeness:
  "(run E tree s = (None, s') \<and> scan_files tree \<noteq> [] \<longrightarrow>
      (\<exists>s1. process_files E (scan_files tree)
               (say (Found_Files (length (scan_files tree)))
                  (say Output_Directory (say Starting s))) = (None, s1)
         \<and> fs s' index_path
             = Some (join nl
                 ([''# Project Documentation'', nl @ ''Generated by Smriti Auto-Doc'' @ nl,
                   ''## Modules'' @ nl]
                  @ map (index_entry (fs s1)) (sort (scan_files tree))))
         \<and> sorted (sort (scan_files tree))
         \<and> mset (sort (scan_files tree)) = mset (scan_files tree)))
   \<and> index_entry disk f
       = ''- ['' @ path_str f @ '']('' @ path_str (butlast f @ [stem (last f) @ ''.md''])
         @ '')''
         @ (if artifact_path f ''.yaml'' \<in> dom disk
            then (if artifact_path f ''.html'' \<in> dom disk
                  then '' ([OpenAPI]('' @ stem (last f) @ ''.yaml) | [Swagger UI](''
                       @ stem (last f) @ ''.html))''
                  else '' ([OpenAPI]('' @ stem (last f) @ ''.yaml))'')
            else (if artifact_path f ''.html'' \<in> dom disk
                  then '' ([Swagger UI]('' @ stem (last f) @ ''.html))''
                  else ''''))
   \<and> (scan_files tree = [] \<longrightarrow>
        fs (snd (run E tree s)) = fs s
        \<and> (fst (run E tree s) = None \<or> fst (run E tree s) = Some (OSError docs_dir)))"
proof (intro conjI impI)
  assume a: "run E tree s = (None, s') \<and> scan_files tree \<noteq> []"
  let ?s0 = "say (Found_Files (length (scan_files tree))) (say Output_Directory (say Starting s))"
  show "\<exists>s1. process_files E (scan_files tree) ?s0 = (None, s1)
         \<and> fs s' index_path
             = Some (join nl
                 ([''# Project Documentation'', nl @ ''Generated by Smriti Auto-Doc'' @ nl,
                   ''## Modules'' @ nl]
                  @ map (index_entry (fs s1)) (sort (scan_files tree))))
         \<and> sorted (sort (scan_files tree))
         \<and> mset (sort (scan_files tree)) = mset (scan_files tree)"
  proof (rule run_cases [where E=E and tree=tree and s=s])
    fix s1 s2
    assume p: "process_files E (scan_files tree) ?s0 = (None, s1)"
      and g: "generate_index E (scan_files tree) s1 = (None, s2)"
      and r: "run E tree s
         = (case save_cache E s2 of (Some e, s3) \<Rightarrow> (Some e, s3)
            | (None, s3) \<Rightarrow> (None, say Documentation_Complete s3))"
    from generate_index_returns [OF g]
    have i: "fs s2 index_path = Some (join nl (index_lines (fs s1) (scan_files tree)))"
      by simp
    obtain r3 s3 where sv: "save_cache E s2 = (r3, s3)" by (cases "save_cache E s2")
    with a r have "r3 = None" "s' = say Documentation_Complete s3"
      by (cases r3; simp)+
    moreover have "fs s3 index_path = fs s2 index_path"
      using sv write_text_fs_other [OF index_not_cache_file, of E "dump_cache E (cache s2)" s2]
      by (simp add: save_cache_def)
    ultimately have "fs s' index_path = Some (join nl (index_lines (fs s1) (scan_files tree)))"
      using i by (simp add: say_def)
    with p show ?thesis by (simp add: index_lines_def)
  qed (use a in auto)
next
  show "index_entry disk f
       = ''- ['' @ path_str f @ '']('' @ path_str (butlast f @ [stem (last f) @ ''.md''])
         @ '')''
         @ (if artifact_path f ''.yaml'' \<in> dom disk
            then (if artifact_path f ''.html'' \<in> dom disk
                  then '' ([OpenAPI]('' @ stem (last f) @ ''.yaml) | [Swagger UI](''
                       @ stem (last f) @ ''.html))''
                  else '' ([OpenAPI]('' @ stem (last f) @ ''.yaml))'')
            else (if artifact_path f ''.html'' \<in> dom disk
                  then '' ([Swagger UI]('' @ stem (last f) @ ''.html))''
                  else ''''))"
    by (rule index_entry_rendered)
next
  assume "scan_files tree = []"
  then show "fs (snd (run E tree s)) = fs s"
    "fst (run E tree s) = None \<or> fst (run E tree s) = Some (OSError docs_dir)"
    by (simp_all add: run_def Let_def say_def)
qed

text \<open>
  C9, witness: the index of the test run, and a project without any unit.
\<close>

theorem index_completeness_witness:
  "run test_env example_tree empty_state
     = (None, snd (run test_env example_tree empty_state))
   \<and> scan_files example_tree = [example_unit]
   \<and> fs (snd (run test_env example_tree empty_state)) index_path
     = Some (''# Project Documentation'' @ nl @ nl @ ''Generated by Smriti Auto-Doc'' @ nl @ nl
             @ ''## Modules'' @ nl @ nl
             @ ''- [src/api.py](src/api.md) ([OpenAPI](api.yaml) | [Swagger UI](api.html))'')
   \<and> fs (snd (run test_env [File ''notes.txt''] empty_state)) = fs empty_state"
proof -
  have a: "run test_env example_tree empty_state
             = (None, snd (run test_env example_tree empty_state))"
    using test_run(1) by (simp add: prod_eq_iff)
  have b: "scan_files example_tree \<noteq> []" by (simp add: example_scan)
  have c: "scan_files [File ''notes.txt''] = []"
    by (simp add: scan_files_def suffix_def)
  from index_completeness
         [where E = test_env and tree = example_tree and s = empty_state
            and s' = "snd (run test_env example_tree empty_state)"]
       a b
  obtain s1 :: state where
    "fs (snd (run test_env example_tree empty_state)) index_path
       = Some (join nl
           ([''# Project Documentation'', nl @ ''Generated by Smriti Auto-Doc'' @ nl,
             ''## Modules'' @ nl]
            @ map (index_entry (fs s1)) (sort (scan_files example_tree))))"
    by blast
  moreover from index_completeness
         [where E = test_env and tree = "[File ''notes.txt'']" and s = empty_state] c
  have "fs (snd (run test_env [File ''notes.txt''] empty_state)) = fs empty_state"
    by blast
  ultimately show ?thesis using a by (simp add: example_scan test_run(5))
qed

text \<open>
  C10. For every unit in a subdirectory, whichever of its spec and viewer files exist, the
  prose link of the index entry is the unit's directory, a slash and the base name with
  \<open>.md\<close>, while the OpenAPI and Swagger UI links, when present, are the base name with
  \<open>.yaml\<close> and \<open>.html\<close> alone: they contain no slash, hence no directory.
\<close>

theorem index_link_targets:
  assumes "butlast f \<noteq> []" and "CHR ''/'' \<notin> set (last f)"
  shows "index_entry disk f
           = ''- ['' @ path_str f @ '']('' @ path_str (butlast f) @ ''/'' @ stem (last f)
             @ ''.md)''
             @ (if artifact_path f ''.yaml'' \<in> dom disk
                then (if artifact_path f ''.html'' \<in> dom disk
                      then '' ([OpenAPI]('' @ stem (last f) @ ''.yaml) | [Swagger UI](''
                           @ stem (last f) @ ''.html))''
                      else '' ([OpenAPI]('' @ stem (last f) @ ''.yaml))'')
                else (if artifact_path f ''.html'' \<in> dom disk
                      then '' ([Swagger UI]('' @ stem (last f) @ ''.html))''
                      else ''''))
       \<and> CHR ''/'' \<notin> set (stem (last f) @ ''.yaml'')
       \<and> CHR ''/'' \<notin> set (stem (last f) @ ''.html'')"
  using assms set_stem [of "last f"]
  by (auto simp: index_entry_rendered path_str_snoc)

text \<open>
  C10, witness: \<open>src/api.py\<close> with both files on disk, and with neither.
\<close>

theorem index_link_targets_witness:
  "index_entry [ [''docs'', ''src'', ''api.yaml''] \<mapsto> ''openapi: 3.0.0'',
                [''docs'', ''src'', ''api.html''] \<mapsto> ''<html>''] [''src'', ''api.py'']
     = ''- [src/api.py](src/api.md) ([OpenAPI](api.yaml) | [Swagger UI](api.html))''
   \<and> index_entry Map.empty [''src'', ''api.py''] = ''- [src/api.py](src/api.md)''"
proof -
  have st: "stem ''api.py'' = ''api''" by (simp add: stem_def rfind_def)
  have a: "butlast [''src'', ''api.py''] \<noteq> []" by simp
  have b: "CHR ''/'' \<notin> set (last [''src'', ''api.py''])" by simp
  from index_link_targets
         [where disk = "[ [''docs'', ''src'', ''api.yaml''] \<mapsto> ''openapi: 3.0.0'',
                          [''docs'', ''src'', ''api.html''] \<mapsto> ''<html>'']", OF a b]
    index_link_targets [where disk = Map.empty, OF a b]
  show ?thesis
    by (simp add: st path_str_def artifact_path_def docs_dir_def)
qed

end
